theory Spec2Isabelle
  imports Complex_Main "HOL-Library.AList"
begin

section \<open>OMEN battery monitor: telemetry, persisted state and notification policy\<close>

text \<open>
  A shallow embedding of \<^verbatim>\<open>src/omen_battery/main.py\<close>: the sensor readers
  \<^verbatim>\<open>sysread\<close> and \<^verbatim>\<open>sysint\<close>, the snapshot built by
  \<^verbatim>\<open>BattData.__init__\<close>, the state file functions \<^verbatim>\<open>load_state\<close> and
  \<^verbatim>\<open>save_state\<close>, and the two handlers of \<^verbatim>\<open>BatteryPanel\<close> that read and
  write the state dictionary, \<^verbatim>\<open>_refresh\<close> and \<^verbatim>\<open>_toggle_topup\<close>.

  Conventions of the model.
  \<^item> An exception is a value: a function that can raise returns \<open>exn + 'a\<close>, with
    \<open>Inl\<close> for the exception.
  \<^item> Text is \<open>string\<close>. Sensor attributes are ASCII text; the predicates below
    (\<open>isspace\<close>, \<open>isdigit\<close>) are Python's on ASCII characters.
  \<^item> Python's \<^verbatim>\<open>int\<close> is \<open>int\<close>. A \<^verbatim>\<open>float\<close> is the real number it holds. The
    quotient \<^verbatim>\<open>sysint(...) / 1_000_000\<close> is kept as the exact number \<open>n / 10\<^sup>6\<close>;
    Python holds the nearest double, which has the same sign, is zero exactly when \<open>n\<close>
    is, and lies on the same side of the literal \<^verbatim>\<open>0.1\<close>.
  \<^item> The rounding operations on floats (\<^verbatim>\<open>/\<close>, \<^verbatim>\<open>-\<close>, \<^verbatim>\<open>*\<close> and \<^verbatim>\<open>round\<close>) are not
    computed by the model: they are a parameter \<open>fp\<close> of every function that uses
    them, so that what is proved holds for the interpreter's operations whatever they
    return. Division by zero raises, as in Python. \<^verbatim>\<open>int(h)\<close> and \<^verbatim>\<open>h % 1\<close> are exact
    on floats and are computed.
  \<^item> Floats are finite: attribute texts of more than 300 characters are outside the
    model. From 307 digits on an intermediate float can be infinite, and from 314 digits
    on the constructor raises \<^verbatim>\<open>OverflowError\<close>. The limit of \<^verbatim>\<open>int(v)\<close> on the number
    of digits (4300) lies beyond that and is not modelled either.
  \<^item> Widget updates and painting are presentation and are left out.
\<close>

subsection \<open>Reading sensor attributes\<close>

datatype exn = ValueError | TypeError | AttributeError | OSError | ZeroDivisionError

definition seq :: "exn + 'a \<Rightarrow> ('a \<Rightarrow> exn + 'b) \<Rightarrow> exn + 'b" where
  \<comment> \<open>run the first step; an exception skips the rest\<close>
  "seq m f = (case m of Inl e \<Rightarrow> Inl e | Inr x \<Rightarrow> f x)"

definition isspace :: "char \<Rightarrow> bool" where
  \<comment> \<open>\<^verbatim>\<open>str.isspace\<close> on ASCII: TAB, LF, VT, FF, CR, FS, GS, RS, US and space\<close>
  "isspace c = (let n = (of_char c :: nat) in (9 \<le> n \<and> n \<le> 13) \<or> (28 \<le> n \<and> n \<le> 32))"

definition isdigit_char :: "char \<Rightarrow> bool" where
  "isdigit_char c = (let n = (of_char c :: nat) in 48 \<le> n \<and> n \<le> 57)"

definition strip :: "string \<Rightarrow> string" where
  \<comment> \<open>\<^verbatim>\<open>str.strip()\<close>: drop leading and trailing whitespace\<close>
  "strip t = rev (dropWhile isspace (rev (dropWhile isspace t)))"

definition lstrip_dash :: "string \<Rightarrow> string" where
  \<comment> \<open>\<^verbatim>\<open>v.lstrip('-')\<close>: drop every leading dash\<close>
  "lstrip_dash v = dropWhile (\<lambda>c. c = CHR ''-'') v"

definition isdigit :: "string \<Rightarrow> bool" where
  \<comment> \<open>\<^verbatim>\<open>str.isdigit()\<close>: at least one character, and all of them digits\<close>
  "isdigit v = (v \<noteq> [] \<and> list_all isdigit_char v)"

fun digits_ok :: "string \<Rightarrow> bool" where
  \<comment> \<open>the digit part accepted by \<^verbatim>\<open>int()\<close>: digits, single underscores between them\<close>
  "digits_ok [] = False"
| "digits_ok [c] = isdigit_char c"
| "digits_ok (c # d # r) =
     (isdigit_char c \<and> (if d = CHR ''_'' then digits_ok r else digits_ok (d # r)))"

definition digit_value :: "char \<Rightarrow> int" where
  "digit_value c = int (of_char c) - 48"

definition decimal :: "string \<Rightarrow> int" where
  "decimal ds = foldl (\<lambda>a c. 10 * a + digit_value c) 0 (filter isdigit_char ds)"

definition py_int :: "string \<Rightarrow> exn + int" where
  \<comment> \<open>\<^verbatim>\<open>int(v)\<close> on text: surrounding whitespace, one optional sign, decimal digits\<close>
  "py_int v =
     (case strip v of
        [] \<Rightarrow> Inl ValueError
      | c # r \<Rightarrow>
          if c = CHR ''-'' then (if digits_ok r then Inr (- decimal r) else Inl ValueError)
          else if c = CHR ''+'' then (if digits_ok r then Inr (decimal r) else Inl ValueError)
          else (if digits_ok (c # r) then Inr (decimal (c # r)) else Inl ValueError))"

definition sysread :: "string option \<Rightarrow> string option" where
  \<comment> \<open>the argument is the outcome of \<^verbatim>\<open>Path(p).read_text()\<close>: \<open>None\<close> when it raises
      (file missing, unreadable, undecodable), which the bare \<^verbatim>\<open>except\<close> turns into
      \<^verbatim>\<open>None\<close>\<close>
  "sysread f = (case f of None \<Rightarrow> None | Some t \<Rightarrow> Some (strip t))"

definition sysint :: "string option \<Rightarrow> exn + int" where
  \<comment> \<open>\<^verbatim>\<open>int(v) if v and v.lstrip('-').isdigit() else 0\<close>\<close>
  "sysint f =
     (case sysread f of
        None \<Rightarrow> Inr 0
      | Some v \<Rightarrow> if v \<noteq> [] \<and> isdigit (lstrip_dash v) then py_int v else Inr 0)"

subsection \<open>The battery snapshot\<close>

record sysfs =
  f_capacity :: "string option"
  f_status :: "string option"
  f_energy_now :: "string option"
  f_energy_full :: "string option"
  f_energy_full_design :: "string option"
  f_power_now :: "string option"
  f_voltage_now :: "string option"
  f_cycle_count :: "string option"
  f_online :: "string option"

record BattData =
  capacity :: int
  status :: string
  energy_now :: real
  energy_full :: real
  energy_design :: real
  power_w :: real
  voltage_v :: real
  cycle_count :: int
  ac_online :: int
  bios_cap_pct :: real
  time_str :: "(int \<times> int) option"

text \<open>
  The float operations of the interpreter. Each takes the numbers its operands stand
  for; the interpreter applies it to the doubles it holds for them. Nothing is assumed
  about what they return.
\<close>

record float_ops =
  fdiv :: "real \<Rightarrow> real \<Rightarrow> real"    \<comment> \<open>\<^verbatim>\<open>x / y\<close> for a divisor that is not zero\<close>
  fsub :: "real \<Rightarrow> real \<Rightarrow> real"    \<comment> \<open>\<^verbatim>\<open>x - y\<close>\<close>
  fmul :: "real \<Rightarrow> real \<Rightarrow> real"    \<comment> \<open>\<^verbatim>\<open>x * y\<close>\<close>
  fround1 :: "real \<Rightarrow> real"        \<comment> \<open>\<^verbatim>\<open>round(x, 1)\<close>\<close>

definition truediv :: "float_ops \<Rightarrow> real \<Rightarrow> real \<Rightarrow> exn + real" where
  \<comment> \<open>\<^verbatim>\<open>x / y\<close> on floats\<close>
  "truediv fp x y = (if y = 0 then Inl ZeroDivisionError else Inr (fdiv fp x y))"

definition trunc :: "real \<Rightarrow> int" where
  \<comment> \<open>\<^verbatim>\<open>int(x)\<close> on a float: towards zero\<close>
  "trunc x = (if 0 \<le> x then \<lfloor>x\<rfloor> else \<lceil>x\<rceil>)"

definition bios_cap :: "float_ops \<Rightarrow> real \<Rightarrow> real \<Rightarrow> exn + real" where
  \<comment> \<open>\<^verbatim>\<open>round(energy_full / energy_design * 100, 1) if energy_design else 0\<close>\<close>
  "bios_cap fp full design =
     (if design \<noteq> 0
      then seq (truediv fp full design) (\<lambda>q. Inr (fround1 fp (fmul fp q 100)))
      else Inr 0)"

definition hours_minutes :: "float_ops \<Rightarrow> real \<Rightarrow> int \<times> int" where
  \<comment> \<open>\<^verbatim>\<open>hi, m = int(h), int((h % 1) * 60)\<close>; for the positive \<open>h\<close> it is applied to,
      \<^verbatim>\<open>h % 1\<close> is the fractional part\<close>
  "hours_minutes fp h = (trunc h, trunc (fmul fp (frac h) 60))"

definition time_estimate ::
  "float_ops \<Rightarrow> string \<Rightarrow> real \<Rightarrow> real \<Rightarrow> real \<Rightarrow> exn + (int \<times> int) option" where
  \<comment> \<open>\<open>None\<close> is the placeholder dash the field starts with; \<open>Some (hi, m)\<close> is the
      text \<^verbatim>\<open>f"{hi}h {m:02d}m"\<close>\<close>
  "time_estimate fp st now full pwr =
     (if 1/10 < pwr then
        seq (if st = ''Discharging'' then truediv fp now pwr
             else if st = ''Charging'' \<or> st = ''Not charging''
               then seq (truediv fp (fsub fp full now) pwr) (\<lambda>q. Inr (max 0 q))
             else Inr 0)
            (\<lambda>h. Inr (if 0 < h then Some (hours_minutes fp h) else None))
      else Inr None)"

definition BattData_init :: "float_ops \<Rightarrow> sysfs \<Rightarrow> exn + BattData" where
  "BattData_init fp sys =
     seq (sysint (f_capacity sys)) (\<lambda>cap.
     let st = (case sysread (f_status sys) of
                 None \<Rightarrow> ''Unknown''
               | Some v \<Rightarrow> if v = [] then ''Unknown'' else v) in
     seq (sysint (f_energy_now sys)) (\<lambda>en.
     seq (sysint (f_energy_full sys)) (\<lambda>ef.
     seq (sysint (f_energy_full_design sys)) (\<lambda>ed.
     seq (sysint (f_power_now sys)) (\<lambda>pw.
     seq (sysint (f_voltage_now sys)) (\<lambda>vo.
     seq (sysint (f_cycle_count sys)) (\<lambda>cy.
     seq (sysint (f_online sys)) (\<lambda>ac.
     let now = real_of_int en / 1000000;
         full = real_of_int ef / 1000000;
         design = real_of_int ed / 1000000;
         pwr = real_of_int pw / 1000000
     in seq (bios_cap fp full design) (\<lambda>bios.
        seq (time_estimate fp st now full pwr) (\<lambda>ts.
        Inr \<lparr>capacity = cap, status = st,
             energy_now = now, energy_full = full, energy_design = design,
             power_w = pwr, voltage_v = real_of_int vo / 1000000,
             cycle_count = cy, ac_online = ac,
             bios_cap_pct = bios, time_str = ts\<rparr>))))))))))"

subsection \<open>The state dictionary and its file\<close>

text \<open>
  The state is whatever \<^verbatim>\<open>json.loads\<close> returned: a JSON value as a Python object.
  A dictionary is an association list in insertion order; \<open>AList.update\<close> is item
  assignment (an existing key keeps its place, a new key goes last).
\<close>

datatype pyfloat =
    Finite real           \<comment> \<open>a float, as the number it denotes\<close>
  | PosInf
  | NegInf
  | NaN

datatype pyval =
    PNone
  | PBool bool
  | PInt int
  | PFloat pyfloat
  | PStr string
  | PList "pyval list"
  | PDict "(string \<times> pyval) list"

fun truthy :: "pyval \<Rightarrow> bool" where
  "truthy PNone = False"
| "truthy (PBool b) = b"
| "truthy (PInt i) = (i \<noteq> 0)"
| "truthy (PFloat (Finite r)) = (r \<noteq> 0)"
| "truthy (PFloat _) = True"
| "truthy (PStr t) = (t \<noteq> [])"
| "truthy (PList xs) = (xs \<noteq> [])"
| "truthy (PDict kvs) = (kvs \<noteq> [])"

fun int_ge :: "int \<Rightarrow> pyval \<Rightarrow> exn + bool" where
  \<comment> \<open>\<^verbatim>\<open>c >= v\<close> for an integer \<open>c\<close>: numbers compare by value, anything else raises\<close>
  "int_ge c (PInt i) = Inr (i \<le> c)"
| "int_ge c (PBool b) = Inr ((if b then 1 else 0) \<le> c)"
| "int_ge c (PFloat (Finite r)) = Inr (r \<le> real_of_int c)"
| "int_ge c (PFloat NegInf) = Inr True"
| "int_ge c (PFloat _) = Inr False"
| "int_ge c _ = Inl TypeError"

fun int_ne :: "pyval \<Rightarrow> int \<Rightarrow> bool" where
  \<comment> \<open>\<^verbatim>\<open>v != c\<close> for an integer \<open>c\<close>: never raises\<close>
  "int_ne (PInt i) c = (i \<noteq> c)"
| "int_ne (PBool b) c = ((if b then 1 else 0) \<noteq> c)"
| "int_ne (PFloat (Finite r)) c = (r \<noteq> real_of_int c)"
| "int_ne _ c = True"

definition dict_get :: "(string \<times> pyval) list \<Rightarrow> string \<Rightarrow> pyval \<Rightarrow> pyval" where
  \<comment> \<open>\<^verbatim>\<open>s.get(k, dflt)\<close> on a dictionary\<close>
  "dict_get kvs k dflt = (case map_of kvs k of None \<Rightarrow> dflt | Some v \<Rightarrow> v)"

definition set_item :: "pyval \<Rightarrow> string \<Rightarrow> pyval \<Rightarrow> exn + pyval" where
  \<comment> \<open>\<^verbatim>\<open>s[k] = v\<close>: only a dictionary takes a text key\<close>
  "set_item s k v =
     (case s of PDict kvs \<Rightarrow> Inr (PDict (AList.update k v kvs)) | _ \<Rightarrow> Inl TypeError)"

datatype state_file =
    Absent                \<comment> \<open>no file: \<^verbatim>\<open>read_text\<close> raises\<close>
  | Unreadable            \<comment> \<open>\<^verbatim>\<open>read_text\<close> raises for another reason\<close>
  | Malformed             \<comment> \<open>text on which \<^verbatim>\<open>json.loads\<close> raises\<close>
  | Holds pyval           \<comment> \<open>text that \<^verbatim>\<open>json.loads\<close> decodes to this value\<close>

definition default_state :: pyval where
  "default_state =
     PDict [(''limit'', PInt 80), (''top_up_active'', PBool False), (''notified_at'', PInt (- 1))]"

definition load_state :: "state_file \<Rightarrow> pyval" where
  "load_state file = (case file of Holds j \<Rightarrow> j | _ \<Rightarrow> default_state)"

record disk =
  mkdir_ok :: bool    \<comment> \<open>\<^verbatim>\<open>STATE_FILE.parent.mkdir(parents=True, exist_ok=True)\<close> returns\<close>
  write_ok :: bool    \<comment> \<open>\<^verbatim>\<open>STATE_FILE.write_text(...)\<close> returns\<close>

definition save_state :: "disk \<Rightarrow> pyval \<Rightarrow> exn + state_file" where
  \<comment> \<open>the result is the file after a successful write; there is no \<^verbatim>\<open>try\<close> in the
      source, so a failing step raises to the caller\<close>
  "save_state dk s =
     (if \<not> mkdir_ok dk then Inl OSError
      else if \<not> write_ok dk then Inl OSError
      else Inr (Holds s))"

subsection \<open>Notifications\<close>

text \<open>
  The texts handed to \<^verbatim>\<open>notify\<close> are constructors that carry the values formatted into
  them. The battery sign and the long dash of the source texts are not ASCII; the
  comments below name the first and write the second as a hyphen.
\<close>

datatype msg =
    Battery_Full                \<comment> \<open>\<^verbatim>\<open>"Battery Full"\<close> after the battery sign\<close>
  | Reached_100                 \<comment> \<open>\<^verbatim>\<open>"Reached 100% - safe to unplug now."\<close>\<close>
  | Unplug_Now int              \<comment> \<open>\<^verbatim>\<open>f"{d.capacity}% - Unplug Now"\<close> after the battery sign\<close>
  | Hit_Limit pyval             \<comment> \<open>\<^verbatim>\<open>f"Battery hit your {limit}% limit. Unplug to protect battery life."\<close>\<close>
  | Top_Up_activated            \<comment> \<open>\<^verbatim>\<open>"Top Up activated"\<close>\<close>
  | Will_notify                 \<comment> \<open>\<^verbatim>\<open>"Will notify when battery reaches 100%"\<close>\<close>

record notification =
  title :: msg
  body :: msg
  urgency :: string
  icon :: string

definition note_full :: notification where
  "note_full = \<lparr>title = Battery_Full, body = Reached_100,
                 urgency = ''normal'', icon = ''battery-full''\<rparr>"

definition note_unplug :: "int \<Rightarrow> pyval \<Rightarrow> notification" where
  "note_unplug cap limit = \<lparr>title = Unplug_Now cap, body = Hit_Limit limit,
                             urgency = ''critical'', icon = ''battery-caution''\<rparr>"

definition note_topup :: notification where
  \<comment> \<open>\<^verbatim>\<open>urgency\<close> is left at the default of \<^verbatim>\<open>notify\<close>, \<^verbatim>\<open>"normal"\<close>\<close>
  "note_topup = \<lparr>title = Top_Up_activated, body = Will_notify,
                  urgency = ''normal'', icon = ''battery-full''\<rparr>"

subsection \<open>The panel's handlers\<close>

text \<open>
  A handler transforms the panel: the dictionary \<^verbatim>\<open>self._state\<close>, the notifications
  handed to \<^verbatim>\<open>notify\<close> so far, the documents written to the state file so far, and
  the exception that ended the handler, if any. Starting the \<^verbatim>\<open>notify-send\<close> process
  is taken to succeed.
\<close>

record panel =
  state :: pyval
  sent :: "notification list"
  written :: "pyval list"
  raised :: "exn option"

definition fresh :: "pyval \<Rightarrow> panel" where
  "fresh s = \<lparr>state = s, sent = [], written = [], raised = None\<rparr>"

definition run :: "(panel \<Rightarrow> panel) list \<Rightarrow> panel \<Rightarrow> panel" where
  \<comment> \<open>statements in order; once one has raised, the rest are skipped\<close>
  "run steps p = foldl (\<lambda>q f. if raised q = None then f q else q) p steps"

definition assign :: "string \<Rightarrow> pyval \<Rightarrow> panel \<Rightarrow> panel" where
  \<comment> \<open>\<^verbatim>\<open>self._state[k] = v\<close>\<close>
  "assign k v p =
     (case set_item (state p) k v of
        Inl e \<Rightarrow> p\<lparr>raised := Some e\<rparr>
      | Inr s' \<Rightarrow> p\<lparr>state := s'\<rparr>)"

definition notify :: "notification \<Rightarrow> panel \<Rightarrow> panel" where
  "notify n p = p\<lparr>sent := sent p @ [n]\<rparr>"

definition save :: "disk \<Rightarrow> panel \<Rightarrow> panel" where
  \<comment> \<open>\<^verbatim>\<open>save_state(self._state)\<close>\<close>
  "save dk p =
     (case save_state dk (state p) of
        Inl e \<Rightarrow> p\<lparr>raised := Some e\<rparr>
      | Inr _ \<Rightarrow> p\<lparr>written := written p @ [state p]\<rparr>)"

definition charge_limit :: "disk \<Rightarrow> BattData \<Rightarrow> panel \<Rightarrow> panel" where
  \<comment> \<open>\<^verbatim>\<open>_refresh\<close> after the snapshot is taken: the reads of the state and the
      charge limit logic\<close>
  "charge_limit dk d p =
     (case state p of
        PDict kvs \<Rightarrow>
          let limit = dict_get kvs ''limit'' (PInt 80);
              topup = dict_get kvs ''top_up_active'' (PBool False);
              effective_limit = (if truthy topup then PInt 100 else limit);
              notified_at = dict_get kvs ''notified_at'' (PInt (- 1))
          in (case (if ac_online d \<noteq> 0 then int_ge (capacity d) effective_limit
                    else Inr False) of
                Inl e \<Rightarrow> p\<lparr>raised := Some e\<rparr>
              | Inr reached \<Rightarrow>
                  run [\<lambda>q. if reached \<and> int_ne notified_at (capacity d) then
                              run ((if truthy topup
                                    then [notify note_full,
                                          assign ''top_up_active'' (PBool False)]
                                    else [notify (note_unplug (capacity d) limit)])
                                   @ [assign ''notified_at'' (PInt (capacity d)), save dk]) q
                            else q,
                       \<lambda>q. if ac_online d = 0 \<and> int_ne notified_at (- 1) then
                              run [assign ''notified_at'' (PInt (- 1)), save dk] q
                            else q] p)
      | _ \<Rightarrow> p\<lparr>raised := Some AttributeError\<rparr>)"

definition refresh :: "float_ops \<Rightarrow> sysfs \<Rightarrow> disk \<Rightarrow> panel \<Rightarrow> panel" where
  \<comment> \<open>\<^verbatim>\<open>BatteryPanel._refresh\<close>\<close>
  "refresh fp sys dk p =
     (case BattData_init fp sys of
        Inl e \<Rightarrow> p\<lparr>raised := Some e\<rparr>
      | Inr d \<Rightarrow> charge_limit dk d p)"

definition toggle_topup :: "bool \<Rightarrow> float_ops \<Rightarrow> sysfs \<Rightarrow> disk \<Rightarrow> panel \<Rightarrow> panel" where
  \<comment> \<open>\<^verbatim>\<open>BatteryPanel._toggle_topup\<close>; \<open>checked\<close> is \<^verbatim>\<open>self._btn_topup.isChecked()\<close>\<close>
  "toggle_topup checked fp sys dk p =
     run [assign ''top_up_active'' (PBool checked),
          assign ''notified_at'' (PInt (- 1)),
          save dk,
          \<lambda>q. if checked then notify note_topup q else q,
          refresh fp sys dk] p"

definition fields :: "pyval \<Rightarrow> (pyval \<times> pyval \<times> pyval) option" where
  \<comment> \<open>what the handlers read from a state: \<^verbatim>\<open>limit\<close>, \<^verbatim>\<open>top_up_active\<close> and
      \<^verbatim>\<open>notified_at\<close>, with the defaults of \<^verbatim>\<open>s.get\<close>; \<open>None\<close> when the state is
      not a dictionary\<close>
  "fields s =
     (case s of
        PDict kvs \<Rightarrow> Some (dict_get kvs ''limit'' (PInt 80),
                           dict_get kvs ''top_up_active'' (PBool False),
                           dict_get kvs ''notified_at'' (PInt (- 1)))
      | _ \<Rightarrow> None)"

subsection \<open>Well-formed attribute texts and sample readings\<close>





definition round1 :: "real \<Rightarrow> real" where
  \<comment> \<open>to one decimal place, a tie to the even neighbour\<close>
  "round1 x =
     (let y = x * 10; f = \<lfloor>y\<rfloor>; r = y - of_int f
      in of_int (if r < 1/2 then f else if 1/2 < r then f + 1
                 else if even f then f else f + 1) / 10)"

definition exact_ops :: float_ops where
  \<comment> \<open>the operations without rounding error: they return what the interpreter returns
      wherever the exact result is a double, as it is at every step of the sample
      readings below (\<open>48 / 64 = 0.75\<close>, \<open>8 / 16 = 0.5\<close>, \<open>40 / 16 = 2.5\<close>,
      \<open>0.5 * 60 = 30\<close>)\<close>
  "exact_ops = \<lparr>fdiv = (\<lambda>x y. x / y), fsub = (\<lambda>x y. x - y), fmul = (\<lambda>x y. x * y),
                 fround1 = round1\<rparr>"

definition reading :: "string \<Rightarrow> string \<Rightarrow> string \<Rightarrow> sysfs" where
  \<comment> \<open>a battery holding 40 of 48 Wh (64 Wh by design) at 16 W and 16 V after 12 cycles,
      with the given capacity, status and AC flag\<close>
  "reading cap st online =
     \<lparr>f_capacity = Some cap, f_status = Some st,
      f_energy_now = Some ''40000000'', f_energy_full = Some ''48000000'',
      f_energy_full_design = Some ''64000000'', f_power_now = Some ''16000000'',
      f_voltage_now = Some ''16000000'', f_cycle_count = Some ''12'',
      f_online = Some online\<rparr>"

definition snapshot :: "int \<Rightarrow> string \<Rightarrow> int \<Rightarrow> BattData" where
  \<comment> \<open>what \<open>BattData_init\<close> makes of such a reading: 75 percent of the design capacity,
      half an hour to charge or two and a half hours to discharge\<close>
  "snapshot cap st online =
     \<lparr>capacity = cap, status = st, energy_now = 40, energy_full = 48, energy_design = 64,
      power_w = 16, voltage_v = 16, cycle_count = 12, ac_online = online,
      bios_cap_pct = 75,
      time_str = (if st = ''Discharging'' then Some (2, 30)
                  else if st = ''Charging'' \<or> st = ''Not charging'' then Some (0, 30)
                  else None)\<rparr>"

definition disk_ok :: disk where
  "disk_ok = \<lparr>mkdir_ok = True, write_ok = True\<rparr>"

definition disk_full :: disk where
  "disk_full = \<lparr>mkdir_ok = True, write_ok = False\<rparr>"


section \<open>Properties\<close>

subsection \<open>Auxiliary facts about the handlers\<close>

lemma dict_get_update:
  "dict_get (AList.update k v kvs) k' dflt = (if k' = k then v else dict_get kvs k' dflt)"
  by (simp add: dict_get_def update_conv')

lemma fields_PDict:
  "fields s = Some (a, b, c) \<longleftrightarrow>
     (\<exists>kvs. s = PDict kvs \<and> dict_get kvs ''limit'' (PInt 80) = a
        \<and> dict_get kvs ''top_up_active'' (PBool False) = b
        \<and> dict_get kvs ''notified_at'' (PInt (- 1)) = c)"
  by (cases s) (auto simp: fields_def)

lemmas handler_defs = charge_limit_def run_def assign_def set_item_def notify_def save_def
  save_state_def fresh_def Let_def

lemma refresh_snapshot:
  "BattData_init fp sys = Inr d \<Longrightarrow> refresh fp sys dk p = charge_limit dk d p"
  by (simp add: refresh_def)

text \<open>The threshold branch: on AC, at or above the effective limit, at a capacity not yet notified.\<close>

lemma charge_limit_reached:
  assumes "fields s = Some (PInt l, PBool t, PInt n)"
    and "ac_online d \<noteq> 0" and "(if t then 100 else l) \<le> capacity d" and "n \<noteq> capacity d"
  shows "sent (charge_limit dk d (fresh s)) =
           [if t then note_full else note_unplug (capacity d) (PInt l)]" (is ?A)
    and "fields (state (charge_limit dk d (fresh s))) =
           Some (PInt l, PBool False, PInt (capacity d))" (is ?B)
    and "raised (charge_limit dk d (fresh s)) =
           (if mkdir_ok dk \<and> write_ok dk then None else Some OSError)" (is ?C)
    and "written (charge_limit dk d (fresh s)) =
           (if mkdir_ok dk \<and> write_ok dk then [state (charge_limit dk d (fresh s))] else [])" (is ?D)
proof -
  from assms(1) obtain kvs where "s = PDict kvs"
    and "dict_get kvs ''limit'' (PInt 80) = PInt l"
    and "dict_get kvs ''top_up_active'' (PBool False) = PBool t"
    and "dict_get kvs ''notified_at'' (PInt (- 1)) = PInt n"
    by (auto simp: fields_PDict)
  note kv = this assms(2-)
  show ?A using kv
    by (cases t; simp add: handler_defs dict_get_update fields_def)
  show ?B using kv
    by (cases t; simp add: handler_defs dict_get_update fields_def)
  show ?C using kv
    by (cases t; simp add: handler_defs dict_get_update fields_def)
  show ?D using kv
    by (cases t; simp add: handler_defs dict_get_update fields_def)
qed

text \<open>Every other case: no notification; off AC the capacity last notified is forgotten.\<close>

lemma charge_limit_quiet:
  assumes "fields s = Some (PInt l, PBool t, PInt n)"
    and "ac_online d = 0 \<or> capacity d < (if t then 100 else l) \<or> n = capacity d"
  shows "sent (charge_limit dk d (fresh s)) = []" (is ?A)
    and "fields (state (charge_limit dk d (fresh s))) =
           Some (PInt l, PBool t, PInt (if ac_online d = 0 then - 1 else n))" (is ?B)
proof -
  from assms(1) obtain kvs where "s = PDict kvs"
    and "dict_get kvs ''limit'' (PInt 80) = PInt l"
    and "dict_get kvs ''top_up_active'' (PBool False) = PBool t"
    and "dict_get kvs ''notified_at'' (PInt (- 1)) = PInt n"
    by (auto simp: fields_PDict)
  note kv = this assms(2-)
  show ?A using kv
    by (cases t; cases "ac_online d = 0"; cases "n = capacity d";
        simp add: handler_defs dict_get_update fields_def)
  show ?B using kv
    by (cases t; cases "ac_online d = 0"; cases "n = capacity d";
        simp add: handler_defs dict_get_update fields_def)
qed

text \<open>Nothing to do: the handler leaves the panel as it found it.\<close>

lemma charge_limit_idle:
  assumes "fields s = Some (PInt l, PBool t, PInt n)"
    and "if ac_online d = 0 then n = - 1 else capacity d < (if t then 100 else l) \<or> n = capacity d"
  shows "charge_limit dk d (fresh s) = fresh s"
proof -
  from assms(1) obtain kvs where "s = PDict kvs"
    and "dict_get kvs ''limit'' (PInt 80) = PInt l"
    and "dict_get kvs ''top_up_active'' (PBool False) = PBool t"
    and "dict_get kvs ''notified_at'' (PInt (- 1)) = PInt n"
    by (auto simp: fields_PDict)
  with assms(2) show ?thesis
    by (cases t; cases "ac_online d = 0"; cases "n = capacity d"; simp add: handler_defs)
qed

lemma reading_snapshot_80: "BattData_init exact_ops (reading ''80'' ''Charging'' ''1'') = Inr (snapshot 80 ''Charging'' 1)"
  by code_simp

lemma reading_snapshot_85: "BattData_init exact_ops (reading ''85'' ''Charging'' ''1'') = Inr (snapshot 85 ''Charging'' 1)"
  by code_simp

lemma reading_snapshot_100: "BattData_init exact_ops (reading ''100'' ''Charging'' ''1'') = Inr (snapshot 100 ''Charging'' 1)"
  by code_simp

lemma reading_snapshot_60: "BattData_init exact_ops (reading ''60'' ''Discharging'' ''0'') = Inr (snapshot 60 ''Discharging'' 0)"
  by code_simp

lemma fields_default_state: "fields default_state = Some (PInt 80, PBool False, PInt (- 1))"
  by (simp add: fields_def default_state_def dict_get_def)

subsection \<open>The notification policy\<close>

text \<open>
  C1. On AC, at a capacity at or above the effective limit (100 when top-up is active,
  the configured limit otherwise) that is not the capacity already notified, one run of
  \<^verbatim>\<open>_refresh\<close> hands exactly one notification to \<^verbatim>\<open>notify\<close> and leaves
  \<^verbatim>\<open>notified_at\<close> at the capacity read. The comparison is \<open>\<le>\<close>, so equality fires.
  A later run one percent higher, still at or above the limit, notifies again.
\<close>

theorem refresh_notifies_at_limit:
  assumes "BattData_init fp sys = Inr d"
    and "fields s = Some (PInt l, PBool t, PInt n)"
    and "ac_online d \<noteq> 0"
    and "(if t then 100 else l) \<le> capacity d"
    and "n \<noteq> capacity d"
  shows "sent (refresh fp sys dk (fresh s)) =
           [if t then note_full else note_unplug (capacity d) (PInt l)]
       \<and> fields (state (refresh fp sys dk (fresh s))) = Some (PInt l, PBool False, PInt (capacity d))
       \<and> (\<forall>sys' d' dk'.
            BattData_init fp sys' = Inr d' \<and> ac_online d' \<noteq> 0
              \<and> capacity d' = capacity d + 1 \<and> (t \<longrightarrow> l \<le> capacity d')
            \<longrightarrow> sent (refresh fp sys' dk' (fresh (state (refresh fp sys dk (fresh s))))) =
                  [note_unplug (capacity d') (PInt l)])"
proof -
  let ?p = "refresh fp sys dk (fresh s)"
  have p: "?p = charge_limit dk d (fresh s)"
    using assms(1) by (rule refresh_snapshot)
  have A: "sent ?p = [if t then note_full else note_unplug (capacity d) (PInt l)]"
    unfolding p using assms(2-) by (rule charge_limit_reached)
  have B: "fields (state ?p) = Some (PInt l, PBool False, PInt (capacity d))"
    unfolding p using assms(2-) by (rule charge_limit_reached)
  have C: "sent (refresh fp sys' dk' (fresh (state ?p))) = [note_unplug (capacity d') (PInt l)]"
    if "BattData_init fp sys' = Inr d'" "ac_online d' \<noteq> 0"
       "capacity d' = capacity d + 1" "t \<longrightarrow> l \<le> capacity d'"
    for sys' d' dk'
  proof -
    have "l \<le> capacity d'"
      using that(3,4) assms(4) by (cases t) simp_all
    with charge_limit_reached(1)[OF B, of d' dk'] that
    show ?thesis by (simp add: refresh_snapshot)
  qed
  from A B C show ?thesis by blast
qed

theorem refresh_notifies_at_limit_witness:
  "BattData_init exact_ops (reading ''80'' ''Charging'' ''1'') = Inr (snapshot 80 ''Charging'' 1)
   \<and> fields default_state = Some (PInt 80, PBool False, PInt (- 1))
   \<and> sent (refresh exact_ops (reading ''80'' ''Charging'' ''1'') disk_ok (fresh default_state)) =
        [note_unplug 80 (PInt 80)]
   \<and> fields (state (refresh exact_ops (reading ''80'' ''Charging'' ''1'') disk_ok (fresh default_state))) =
        Some (PInt 80, PBool False, PInt 80)"
  using refresh_notifies_at_limit [OF reading_snapshot_80 fields_default_state, of disk_ok]
    reading_snapshot_80 fields_default_state
  by (simp add: snapshot_def)

text \<open>
  C2. Off AC, \<^verbatim>\<open>_refresh\<close> sends nothing and leaves \<^verbatim>\<open>notified_at\<close> at \<open>-1\<close>,
  whatever it was; and it sends nothing when the capacity is below the effective limit.
\<close>

theorem refresh_silent_off_ac_or_below_limit:
  assumes "BattData_init fp sys = Inr d"
    and "fields s = Some (PInt l, PBool t, PInt n)"
  shows "(ac_online d = 0 \<longrightarrow>
            sent (refresh fp sys dk (fresh s)) = []
          \<and> fields (state (refresh fp sys dk (fresh s))) = Some (PInt l, PBool t, PInt (- 1)))
       \<and> (capacity d < (if t then 100 else l) \<longrightarrow> sent (refresh fp sys dk (fresh s)) = [])"
  using charge_limit_quiet [OF assms(2), of d dk] assms(1)
  by (simp add: refresh_snapshot)

theorem refresh_silent_off_ac_or_below_limit_witness:
  "sent (refresh exact_ops (reading ''60'' ''Discharging'' ''0'') disk_ok
       (fresh (PDict [(''limit'', PInt 80), (''top_up_active'', PBool False),
                      (''notified_at'', PInt 80)]))) = []
   \<and> fields (state (refresh exact_ops (reading ''60'' ''Discharging'' ''0'') disk_ok
       (fresh (PDict [(''limit'', PInt 80), (''top_up_active'', PBool False),
                      (''notified_at'', PInt 80)])))) = Some (PInt 80, PBool False, PInt (- 1))"
  using refresh_silent_off_ac_or_below_limit [OF reading_snapshot_60,
    of "PDict [(''limit'', PInt 80), (''top_up_active'', PBool False), (''notified_at'', PInt 80)]"
       80 False 80 disk_ok]
  by (simp add: snapshot_def fields_def dict_get_def)

text \<open>
  C3. Deduplication. Running \<^verbatim>\<open>_refresh\<close> again on the same reading, from the state the
  first run left, sends nothing, writes nothing, raises nothing and leaves the state as
  it is. This holds on AC (where the first run may have set \<^verbatim>\<open>notified_at\<close> to the
  capacity) and off AC alike, and whether or not the first run could save. More generally,
  on AC a run from any state already notified at the capacity read changes nothing.
\<close>

theorem refresh_dedup_idempotent:
  assumes "BattData_init fp sys = Inr d"
    and "fields s = Some (PInt l, PBool t, PInt n)"
  shows "refresh fp sys dk' (fresh (state (refresh fp sys dk (fresh s)))) =
           fresh (state (refresh fp sys dk (fresh s)))
       \<and> (ac_online d \<noteq> 0 \<and> n = capacity d \<longrightarrow> refresh fp sys dk (fresh s) = fresh s)"
proof -
  let ?s1 = "state (charge_limit dk d (fresh s))"
  have plateau: "charge_limit dk d (fresh s) = fresh s" if "ac_online d \<noteq> 0" "n = capacity d"
    by (rule charge_limit_idle [OF assms(2)]) (use that in simp)
  have "charge_limit dk' d (fresh ?s1) = fresh ?s1"
  proof (cases "ac_online d \<noteq> 0 \<and> (if t then 100 else l) \<le> capacity d \<and> n \<noteq> capacity d")
    case True
    then have f1: "fields ?s1 = Some (PInt l, PBool False, PInt (capacity d))"
      using charge_limit_reached(2) [OF assms(2), of d dk] by simp
    show ?thesis
      by (rule charge_limit_idle [OF f1]) (use True in simp)
  next
    case False
    then have quiet: "ac_online d = 0 \<or> capacity d < (if t then 100 else l) \<or> n = capacity d"
      by auto
    have f1: "fields ?s1 = Some (PInt l, PBool t, PInt (if ac_online d = 0 then - 1 else n))"
      using assms(2) quiet by (rule charge_limit_quiet)
    show ?thesis
      by (rule charge_limit_idle [OF f1]) (use quiet in auto)
  qed
  with plateau show ?thesis
    using assms(1) by (simp add: refresh_snapshot)
qed

theorem refresh_dedup_idempotent_witness:
  "sent (refresh exact_ops (reading ''80'' ''Charging'' ''1'') disk_ok
      (fresh (state (refresh exact_ops (reading ''80'' ''Charging'' ''1'') disk_ok (fresh default_state))))) = []
   \<and> state (refresh exact_ops (reading ''80'' ''Charging'' ''1'') disk_ok
      (fresh (state (refresh exact_ops (reading ''80'' ''Charging'' ''1'') disk_ok (fresh default_state))))) =
     PDict [(''limit'', PInt 80), (''top_up_active'', PBool False), (''notified_at'', PInt 80)]"
proof -
  have "state (refresh exact_ops (reading ''80'' ''Charging'' ''1'') disk_ok (fresh default_state)) =
          PDict [(''limit'', PInt 80), (''top_up_active'', PBool False), (''notified_at'', PInt 80)]"
    by (simp add: refresh_snapshot [OF reading_snapshot_80] snapshot_def default_state_def
        disk_ok_def handler_defs dict_get_def)
  with refresh_dedup_idempotent [OF reading_snapshot_80 fields_default_state, of disk_ok disk_ok]
  show ?thesis by (simp add: fresh_def)
qed

text \<open>
  C4. Top-up auto-clear. With top-up active, on AC at 100 percent and not yet notified at
  100, \<^verbatim>\<open>_refresh\<close> sends the one "Battery Full" notification, of urgency
  \<^verbatim>\<open>normal\<close>, and leaves \<^verbatim>\<open>top_up_active\<close> false and \<^verbatim>\<open>notified_at\<close> at 100.
\<close>

theorem refresh_topup_auto_clear:
  assumes "BattData_init fp sys = Inr d"
    and "fields s = Some (PInt l, PBool True, PInt n)"
    and "n \<noteq> 100"
    and "capacity d = 100"
    and "ac_online d \<noteq> 0"
  shows "sent (refresh fp sys dk (fresh s)) = [note_full]
       \<and> map title (sent (refresh fp sys dk (fresh s))) = [Battery_Full]
       \<and> map urgency (sent (refresh fp sys dk (fresh s))) = [''normal'']
       \<and> fields (state (refresh fp sys dk (fresh s))) = Some (PInt l, PBool False, PInt 100)"
proof -
  have p: "refresh fp sys dk (fresh s) = charge_limit dk d (fresh s)"
    using assms(1) by (rule refresh_snapshot)
  have "sent (charge_limit dk d (fresh s)) = [note_full]"
    using charge_limit_reached(1) [OF assms(2), of d dk] assms(3-) by simp
  moreover have "fields (state (charge_limit dk d (fresh s))) = Some (PInt l, PBool False, PInt 100)"
    using charge_limit_reached(2) [OF assms(2), of d dk] assms(3-) by simp
  ultimately show ?thesis
    unfolding p by (simp add: note_full_def)
qed

theorem refresh_topup_auto_clear_witness:
  "sent (refresh exact_ops (reading ''100'' ''Charging'' ''1'') disk_ok
      (fresh (PDict [(''limit'', PInt 80), (''top_up_active'', PBool True),
                     (''notified_at'', PInt (- 1))]))) = [note_full]
   \<and> fields (state (refresh exact_ops (reading ''100'' ''Charging'' ''1'') disk_ok
      (fresh (PDict [(''limit'', PInt 80), (''top_up_active'', PBool True),
                     (''notified_at'', PInt (- 1))])))) = Some (PInt 80, PBool False, PInt 100)"
  using refresh_topup_auto_clear [OF reading_snapshot_100,
    of "PDict [(''limit'', PInt 80), (''top_up_active'', PBool True), (''notified_at'', PInt (- 1))]"
       80 "- 1" disk_ok]
  by (simp add: snapshot_def fields_def dict_get_def)

subsection \<open>The top-up toggle\<close>

text \<open>
  C5, as stated, fails: \<^verbatim>\<open>_toggle_topup\<close> ends with a call of \<^verbatim>\<open>_refresh\<close>, which
  evaluates the policy at once on the state just written. Cancelling top-up at 85 percent
  on AC with a limit of 80 sends the "Unplug Now" notification from within the handler
  and leaves \<^verbatim>\<open>notified_at\<close> at 85, not at \<open>-1\<close>.
\<close>

theorem toggle_topup_off_counterexample:
  "sent (toggle_topup False exact_ops (reading ''85'' ''Charging'' ''1'') disk_ok
     (fresh (PDict [(''limit'', PInt 80), (''top_up_active'', PBool True),
                    (''notified_at'', PInt (- 1))]))) = [note_unplug 85 (PInt 80)]
   \<and> fields (state (toggle_topup False exact_ops (reading ''85'' ''Charging'' ''1'') disk_ok
     (fresh (PDict [(''limit'', PInt 80), (''top_up_active'', PBool True),
                    (''notified_at'', PInt (- 1))])))) = Some (PInt 80, PBool False, PInt 85)"
  by (simp add: toggle_topup_def refresh_def reading_snapshot_85 snapshot_def disk_ok_def
      handler_defs dict_get_def fields_def)

text \<open>
  C5, amended. For every state and every reading from which the snapshot is constructed,
  when the state file can be written, the handler first stores and saves the state with
  \<^verbatim>\<open>top_up_active\<close> as toggled and \<^verbatim>\<open>notified_at = -1\<close> (the first document written),
  sends "Top Up activated" with urgency \<^verbatim>\<open>normal\<close> when toggled on and nothing of its
  own when toggled off, and then runs \<^verbatim>\<open>_refresh\<close> once. If the reading is on AC with a
  capacity that is at or above the new effective limit (100 when toggled on, the limit
  when toggled off) and is not \<open>-1\<close>, the value just stored in \<^verbatim>\<open>notified_at\<close>, that run
  sends the threshold notification next, sets \<^verbatim>\<open>notified_at\<close> to the capacity and leaves
  top-up off; otherwise the state stays as toggled and nothing more is sent. The limit is
  unchanged in every case.
\<close>

theorem toggle_topup_then_refresh:
  fixes d :: BattData and l :: int and checked reached :: bool
  defines "reached \<equiv> ac_online d \<noteq> 0 \<and> (if checked then 100 else l) \<le> capacity d
                        \<and> capacity d \<noteq> - 1"
  assumes "BattData_init fp sys = Inr d"
    and "fields s = Some (PInt l, PBool t, PInt n)"
    and "mkdir_ok dk" and "write_ok dk"
  shows "sent (toggle_topup checked fp sys dk (fresh s)) =
           (if checked then [note_topup] else [])
           @ (if reached then [if checked then note_full else note_unplug (capacity d) (PInt l)]
              else [])
       \<and> urgency note_topup = ''normal''
       \<and> fields (hd (written (toggle_topup checked fp sys dk (fresh s)))) =
           Some (PInt l, PBool checked, PInt (- 1))
       \<and> fields (state (toggle_topup checked fp sys dk (fresh s))) =
           Some (PInt l, PBool (checked \<and> \<not> reached), PInt (if reached then capacity d else - 1))
       \<and> raised (toggle_topup checked fp sys dk (fresh s)) = None"
proof -
  from assms(3) obtain kvs where "s = PDict kvs"
    and "dict_get kvs ''limit'' (PInt 80) = PInt l"
    and "dict_get kvs ''top_up_active'' (PBool False) = PBool t"
    and "dict_get kvs ''notified_at'' (PInt (- 1)) = PInt n"
    by (auto simp: fields_PDict)
  note kv = this assms(2,4-)
  have r: "reached = (ac_online d \<noteq> 0 \<and> (if checked then 100 else l) \<le> capacity d
                        \<and> capacity d \<noteq> - 1)"
    by (simp add: reached_def)
  show ?thesis
  proof (cases reached)
    case True
    with kv r show ?thesis
      by (cases checked; simp add: toggle_topup_def refresh_def handler_defs dict_get_update
          fields_def note_topup_def)
  next
    case False
    with kv r show ?thesis
      by (cases checked; cases "ac_online d = 0";
          simp add: toggle_topup_def refresh_def handler_defs dict_get_update fields_def
            note_topup_def)
  qed
qed

theorem toggle_topup_then_refresh_witness:
  "sent (toggle_topup True exact_ops (reading ''85'' ''Charging'' ''1'') disk_ok (fresh default_state)) =
     [note_topup]
   \<and> fields (state (toggle_topup True exact_ops (reading ''85'' ''Charging'' ''1'') disk_ok
        (fresh default_state))) = Some (PInt 80, PBool True, PInt (- 1))"
  using toggle_topup_then_refresh [OF reading_snapshot_85 fields_default_state, of disk_ok True]
  by (simp add: snapshot_def disk_ok_def)

subsection \<open>The state file\<close>

text \<open>
  C6, as stated, fails: \<^verbatim>\<open>load_state\<close> returns whatever \<^verbatim>\<open>json.loads\<close> decoded and
  checks nothing. The document \<^verbatim>\<open>{"limit": 500}\<close>, with two keys missing and a limit
  outside 0..100, is returned as it is.
\<close>

theorem load_state_unvalidated_counterexample:
  "load_state (Holds (PDict [(''limit'', PInt 500)])) = PDict [(''limit'', PInt 500)]
   \<and> load_state (Holds (PDict [(''limit'', PInt 500)])) \<noteq> default_state"
  by (simp add: load_state_def default_state_def)

text \<open>
  C6, amended. \<^verbatim>\<open>load_state\<close> returns the defaults (limit 80, top-up off, notified at
  \<open>-1\<close>) when the file is absent, unreadable or not JSON; a document that decodes is
  returned unchanged, without any check of keys, types or range. It never raises: the
  bare \<^verbatim>\<open>except\<close> covers both the read and the decoding.
\<close>

theorem load_state_defaults_or_document:
  "load_state Absent = default_state
   \<and> load_state Unreadable = default_state
   \<and> load_state Malformed = default_state
   \<and> load_state (Holds j) = j
   \<and> fields default_state = Some (PInt 80, PBool False, PInt (- 1))"
  by (simp add: load_state_def fields_default_state)

theorem load_state_defaults_or_document_witness:
  "load_state Absent = PDict [(''limit'', PInt 80), (''top_up_active'', PBool False),
                               (''notified_at'', PInt (- 1))]
   \<and> load_state (Holds (PList [])) = PList []"
  using load_state_defaults_or_document [of "PList []"]
  by (simp add: default_state_def)

text \<open>
  C7, as stated, fails: \<^verbatim>\<open>save_state\<close> has no handler around \<^verbatim>\<open>mkdir\<close> and
  \<^verbatim>\<open>write_text\<close>. When the write fails the exception reaches the caller, and a run of
  \<^verbatim>\<open>_refresh\<close> that wanted to save ends with it.
\<close>

theorem save_state_failure_counterexample:
  "save_state disk_full default_state = Inl OSError
   \<and> raised (refresh exact_ops (reading ''80'' ''Charging'' ''1'') disk_full (fresh default_state)) =
       Some OSError"
  by (simp add: refresh_def reading_snapshot_80 snapshot_def disk_full_def default_state_def
      handler_defs dict_get_def)

text \<open>
  C7, amended. \<^verbatim>\<open>save_state\<close> writes the full state when the directory can be made and
  the file written, and \<^verbatim>\<open>load_state\<close> then returns that state; otherwise it raises
  \<^verbatim>\<open>OSError\<close> to its caller, and nothing is caught or logged. In the threshold branch
  of \<^verbatim>\<open>_refresh\<close> the save comes last: when it raises, the notification has been sent
  and the state in memory already holds the capacity in \<^verbatim>\<open>notified_at\<close>, no save has
  completed, and the handler ends with the exception.
\<close>

theorem save_state_writes_or_raises:
  "save_state dk s = (if mkdir_ok dk \<and> write_ok dk then Inr (Holds s) else Inl OSError)
   \<and> (\<forall>file. save_state dk s = Inr file \<longrightarrow> load_state file = s)
   \<and> (BattData_init fp sys = Inr d \<and> fields s = Some (PInt l, PBool t, PInt n)
        \<and> ac_online d \<noteq> 0 \<and> (if t then 100 else l) \<le> capacity d \<and> n \<noteq> capacity d
        \<and> \<not> (mkdir_ok dk \<and> write_ok dk)
      \<longrightarrow> raised (refresh fp sys dk (fresh s)) = Some OSError
        \<and> written (refresh fp sys dk (fresh s)) = []
        \<and> sent (refresh fp sys dk (fresh s)) =
            [if t then note_full else note_unplug (capacity d) (PInt l)]
        \<and> fields (state (refresh fp sys dk (fresh s))) =
            Some (PInt l, PBool False, PInt (capacity d)))"
proof -
  have "save_state dk s = (if mkdir_ok dk \<and> write_ok dk then Inr (Holds s) else Inl OSError)"
    by (simp add: save_state_def)
  moreover have "\<forall>file. save_state dk s = Inr file \<longrightarrow> load_state file = s"
    by (auto simp: save_state_def load_state_def split: if_splits)
  moreover have "raised (refresh fp sys dk (fresh s)) = Some OSError
        \<and> written (refresh fp sys dk (fresh s)) = []
        \<and> sent (refresh fp sys dk (fresh s)) =
            [if t then note_full else note_unplug (capacity d) (PInt l)]
        \<and> fields (state (refresh fp sys dk (fresh s))) =
            Some (PInt l, PBool False, PInt (capacity d))"
    if h: "BattData_init fp sys = Inr d" "fields s = Some (PInt l, PBool t, PInt n)"
      "ac_online d \<noteq> 0" "(if t then 100 else l) \<le> capacity d" "n \<noteq> capacity d"
      "\<not> (mkdir_ok dk \<and> write_ok dk)"
    using charge_limit_reached [OF h(2-5), of dk] h(1,6)
    by (simp add: refresh_snapshot)
  ultimately show ?thesis by blast
qed

theorem save_state_writes_or_raises_witness:
  "save_state disk_ok default_state = Inr (Holds default_state)
   \<and> load_state (Holds default_state) = default_state
   \<and> raised (refresh exact_ops (reading ''80'' ''Charging'' ''1'') disk_full (fresh default_state)) =
       Some OSError
   \<and> sent (refresh exact_ops (reading ''80'' ''Charging'' ''1'') disk_full (fresh default_state)) =
       [note_unplug 80 (PInt 80)]
   \<and> fields (state (refresh exact_ops (reading ''80'' ''Charging'' ''1'') disk_full (fresh default_state))) =
       Some (PInt 80, PBool False, PInt 80)"
  using save_state_writes_or_raises [of disk_ok default_state]
    save_state_writes_or_raises [of disk_full default_state exact_ops
      "reading ''80'' ''Charging'' ''1''"
      "snapshot 80 ''Charging'' 1" 80 False "- 1"]
    reading_snapshot_80 fields_default_state
  by (simp add: disk_ok_def disk_full_def snapshot_def)

subsection \<open>Auxiliary facts about the sensor readers\<close>













lemma seq_Inr: "seq m f = Inr y \<longleftrightarrow> (\<exists>x. m = Inr x \<and> f x = Inr y)"
  by (cases m) (simp_all add: seq_def)




lemma time_estimate_low: "pwr \<le> 1/10 \<Longrightarrow> time_estimate fp st now full pwr = Inr None"
  by (simp add: time_estimate_def)

lemma time_estimate_discharging:
  assumes "1/10 < pwr"
  shows "time_estimate fp ''Discharging'' now full pwr =
           Inr (if 0 < fdiv fp now pwr then Some (hours_minutes fp (fdiv fp now pwr)) else None)"
proof -
  from assms have "pwr \<noteq> 0" by auto
  with assms show ?thesis
    by (simp add: time_estimate_def truediv_def seq_def)
qed

lemma time_estimate_charging:
  assumes "1/10 < pwr" and "st = ''Charging'' \<or> st = ''Not charging''"
  shows "time_estimate fp st now full pwr =
           Inr (if 0 < max 0 (fdiv fp (fsub fp full now) pwr)
                then Some (hours_minutes fp (max 0 (fdiv fp (fsub fp full now) pwr)))
                else None)"
proof -
  from assms(1) have nz: "pwr \<noteq> 0" by auto
  from assms(2) have nd: "st \<noteq> ''Discharging''" by auto
  from assms(2) show ?thesis
  proof
    assume "st = ''Charging''"
    with assms(1) nz show ?thesis
      by (simp add: time_estimate_def truediv_def seq_def)
  next
    assume "st = ''Not charging''"
    with assms(1) nz show ?thesis
      by (simp add: time_estimate_def truediv_def seq_def)
  qed
qed

lemma time_estimate_other:
  assumes "st \<noteq> ''Discharging''" "st \<noteq> ''Charging''" "st \<noteq> ''Not charging''"
  shows "time_estimate fp st now full pwr = Inr None"
  using assms by (simp add: time_estimate_def seq_def)


lemma BattData_init_Inr:
  assumes "BattData_init fp sys = Inr d"
  shows "\<exists>cap en ef ed pw vo cy ac.
           sysint (f_capacity sys) = Inr cap \<and> sysint (f_energy_now sys) = Inr en
         \<and> sysint (f_energy_full sys) = Inr ef \<and> sysint (f_energy_full_design sys) = Inr ed
         \<and> sysint (f_power_now sys) = Inr pw \<and> sysint (f_voltage_now sys) = Inr vo
         \<and> sysint (f_cycle_count sys) = Inr cy \<and> sysint (f_online sys) = Inr ac
         \<and> capacity d = cap \<and> energy_now d = real_of_int en / 1000000
         \<and> energy_full d = real_of_int ef / 1000000
         \<and> energy_design d = real_of_int ed / 1000000
         \<and> power_w d = real_of_int pw / 1000000
         \<and> voltage_v d = real_of_int vo / 1000000
         \<and> cycle_count d = cy \<and> ac_online d = ac
         \<and> status d = (case sysread (f_status sys) of None \<Rightarrow> ''Unknown''
                         | Some v \<Rightarrow> if v = [] then ''Unknown'' else v)
         \<and> bios_cap fp (energy_full d) (energy_design d) = Inr (bios_cap_pct d)
         \<and> time_estimate fp (status d) (energy_now d) (energy_full d) (power_w d) =
             Inr (time_str d)"
proof -
  from assms obtain cap en ef ed pw vo cy ac bios ts where
    r: "sysint (f_capacity sys) = Inr cap" "sysint (f_energy_now sys) = Inr en"
       "sysint (f_energy_full sys) = Inr ef" "sysint (f_energy_full_design sys) = Inr ed"
       "sysint (f_power_now sys) = Inr pw" "sysint (f_voltage_now sys) = Inr vo"
       "sysint (f_cycle_count sys) = Inr cy" "sysint (f_online sys) = Inr ac"
    and b: "bios_cap fp (real_of_int ef / 1000000) (real_of_int ed / 1000000) = Inr bios"
    and t: "time_estimate fp
              (case sysread (f_status sys) of None \<Rightarrow> ''Unknown''
               | Some v \<Rightarrow> if v = [] then ''Unknown'' else v)
              (real_of_int en / 1000000) (real_of_int ef / 1000000)
              (real_of_int pw / 1000000) = Inr ts"
    unfolding BattData_init_def Let_def seq_Inr by blast
  with assms have d: "d = \<lparr>capacity = cap,
         status = (case sysread (f_status sys) of None \<Rightarrow> ''Unknown''
                   | Some v \<Rightarrow> if v = [] then ''Unknown'' else v),
         energy_now = real_of_int en / 1000000, energy_full = real_of_int ef / 1000000,
         energy_design = real_of_int ed / 1000000, power_w = real_of_int pw / 1000000,
         voltage_v = real_of_int vo / 1000000, cycle_count = cy, ac_online = ac,
         bios_cap_pct = bios, time_str = ts\<rparr>"
    by (simp add: BattData_init_def seq_def Let_def)
  show ?thesis
    unfolding d using r b t by simp
qed



subsection \<open>The snapshot\<close>







text \<open>
  C10, as stated, fails: the estimate is shown only when the computed hours are positive.
  Charging at 16 W with \<^verbatim>\<open>energy_now\<close> equal to \<^verbatim>\<open>energy_full\<close> (48 Wh) the claim gives
  \<open>max(0, 0 / 16) = 0\<close> hours, a duration; the code leaves the placeholder, as it does
  when the estimate is unknown (these floats are exact: \<open>48 - 48 = 0\<close>, \<open>0 / 16 = 0\<close>).
\<close>

theorem time_estimate_zero_hours_counterexample:
  "map_sum id power_w (BattData_init exact_ops
      ((reading ''100'' ''Charging'' ''1'')\<lparr>f_energy_now := Some ''48000000''\<rparr>)) = Inr 16
   \<and> map_sum id status (BattData_init exact_ops
      ((reading ''100'' ''Charging'' ''1'')\<lparr>f_energy_now := Some ''48000000''\<rparr>)) = Inr ''Charging''
   \<and> map_sum id energy_now (BattData_init exact_ops
      ((reading ''100'' ''Charging'' ''1'')\<lparr>f_energy_now := Some ''48000000''\<rparr>)) = Inr 48
   \<and> map_sum id energy_full (BattData_init exact_ops
      ((reading ''100'' ''Charging'' ''1'')\<lparr>f_energy_now := Some ''48000000''\<rparr>)) = Inr 48
   \<and> map_sum id time_str (BattData_init exact_ops
      ((reading ''100'' ''Charging'' ''1'')\<lparr>f_energy_now := Some ''48000000''\<rparr>)) = Inr None"
  by code_simp

text \<open>
  C10, amended. The estimate is a duration only when the power exceeds 0.1 W and the
  computed hours \<open>h\<close> are positive, where \<open>h\<close> is \<^verbatim>\<open>energy_now / power_w\<close> when
  discharging and \<^verbatim>\<open>max(0, (energy_full - energy_now) / power_w)\<close> when charging or
  not charging, as the float operations compute them. It is then \<open>h\<close>, shown as
  \<^verbatim>\<open>int(h)\<close> hours and \<^verbatim>\<open>int((h % 1) * 60)\<close> minutes. In every other case (power at
  most 0.1 W, any other status, \<open>h\<close> not positive) it is unknown.
\<close>

theorem time_estimate_cases:
  assumes "BattData_init fp sys = Inr d"
  shows "(time_str d \<noteq> None \<longrightarrow> 1/10 < power_w d)
       \<and> (1/10 < power_w d \<and> status d = ''Discharging''
            \<longrightarrow> time_str d =
                (if 0 < fdiv fp (energy_now d) (power_w d)
                 then Some (hours_minutes fp (fdiv fp (energy_now d) (power_w d)))
                 else None))
       \<and> (1/10 < power_w d \<and> (status d = ''Charging'' \<or> status d = ''Not charging'')
            \<longrightarrow> time_str d =
                (if 0 < max 0 (fdiv fp (fsub fp (energy_full d) (energy_now d)) (power_w d))
                 then Some (hours_minutes fp
                        (max 0 (fdiv fp (fsub fp (energy_full d) (energy_now d)) (power_w d))))
                 else None))
       \<and> (power_w d \<le> 1/10
            \<or> (status d \<noteq> ''Discharging'' \<and> status d \<noteq> ''Charging''
                \<and> status d \<noteq> ''Not charging'')
            \<longrightarrow> time_str d = None)
       \<and> hours_minutes fp h = (trunc h, trunc (fmul fp (frac h) 60))"
proof -
  have t: "time_estimate fp (status d) (energy_now d) (energy_full d) (power_w d) =
             Inr (time_str d)"
    using BattData_init_Inr [OF assms] by auto
  have A: "time_str d \<noteq> None \<longrightarrow> 1/10 < power_w d"
    using t time_estimate_low [of "power_w d" fp "status d" "energy_now d" "energy_full d"]
    by (cases "1/10 < power_w d") auto
  have B: "1/10 < power_w d \<and> status d = ''Discharging''
            \<longrightarrow> time_str d =
                (if 0 < fdiv fp (energy_now d) (power_w d)
                 then Some (hours_minutes fp (fdiv fp (energy_now d) (power_w d)))
                 else None)"
  proof
    assume h: "1/10 < power_w d \<and> status d = ''Discharging''"
    then have "time_estimate fp (status d) (energy_now d) (energy_full d) (power_w d) =
        Inr (if 0 < fdiv fp (energy_now d) (power_w d)
             then Some (hours_minutes fp (fdiv fp (energy_now d) (power_w d)))
             else None)"
      by (simp only: time_estimate_discharging)
    with t show "time_str d =
                (if 0 < fdiv fp (energy_now d) (power_w d)
                 then Some (hours_minutes fp (fdiv fp (energy_now d) (power_w d)))
                 else None)"
      by (simp only: sum.inject)
  qed
  have C: "1/10 < power_w d \<and> (status d = ''Charging'' \<or> status d = ''Not charging'')
            \<longrightarrow> time_str d =
                (if 0 < max 0 (fdiv fp (fsub fp (energy_full d) (energy_now d)) (power_w d))
                 then Some (hours_minutes fp
                        (max 0 (fdiv fp (fsub fp (energy_full d) (energy_now d)) (power_w d))))
                 else None)"
  proof
    assume h: "1/10 < power_w d \<and> (status d = ''Charging'' \<or> status d = ''Not charging'')"
    then have "time_estimate fp (status d) (energy_now d) (energy_full d) (power_w d) =
        Inr (if 0 < max 0 (fdiv fp (fsub fp (energy_full d) (energy_now d)) (power_w d))
             then Some (hours_minutes fp
                    (max 0 (fdiv fp (fsub fp (energy_full d) (energy_now d)) (power_w d))))
             else None)"
      by (intro time_estimate_charging) simp_all
    with t show "time_str d =
                (if 0 < max 0 (fdiv fp (fsub fp (energy_full d) (energy_now d)) (power_w d))
                 then Some (hours_minutes fp
                        (max 0 (fdiv fp (fsub fp (energy_full d) (energy_now d)) (power_w d))))
                 else None)"
      by (simp only: sum.inject)
  qed
  have D: "power_w d \<le> 1/10
            \<or> (status d \<noteq> ''Discharging'' \<and> status d \<noteq> ''Charging''
                \<and> status d \<noteq> ''Not charging'')
            \<longrightarrow> time_str d = None"
    using t time_estimate_low [of "power_w d" fp "status d" "energy_now d" "energy_full d"]
      time_estimate_other [of "status d" fp "energy_now d" "energy_full d" "power_w d"]
    by auto
  have E: "hours_minutes fp h = (trunc h, trunc (fmul fp (frac h) 60))"
    by (simp add: hours_minutes_def)
  from A B C D E show ?thesis by blast
qed

theorem time_estimate_cases_witness:
  "time_str (snapshot 80 ''Charging'' 1) = Some (0, 30)
   \<and> time_str (snapshot 60 ''Discharging'' 0) = Some (2, 30)
   \<and> hours_minutes exact_ops (5 / 2) = (2, 30)"
  using time_estimate_cases [OF reading_snapshot_80, of "5 / 2"]
    time_estimate_cases [OF reading_snapshot_60, of "5 / 2"]
  by (simp add: snapshot_def exact_ops_def trunc_def frac_def)

end
